theory Spec2Isabelle
  imports Complex_Main "HOL-Library.Product_Lexorder"
begin

section \<open>Python values shared by the backtester and the guard rail\<close>

text \<open>
  Exceptions are values. Every handler of the two modules is \<^verbatim>\<open>except Exception\<close>
  (or \<^verbatim>\<open>except SyntaxError\<close>), so the model covers the exceptions deriving from
  \<^verbatim>\<open>Exception\<close>; the constructor names the class and carries \<^verbatim>\<open>str(e)\<close>.
\<close>

datatype py_error =
    ValueError string
  | RuntimeError string
  | IndexError string
  | TypeError string
  | OtherException string

fun str_of :: "py_error \<Rightarrow> string" where
  "str_of (ValueError m) = m"
| "str_of (RuntimeError m) = m"
| "str_of (IndexError m) = m"
| "str_of (TypeError m) = m"
| "str_of (OtherException m) = m"

text \<open>
  Floating-point numbers are modelled by reals. \<open>None\<close> is NaN, the marker pandas
  leaves where \<^verbatim>\<open>shift\<close>, \<^verbatim>\<open>diff\<close> and \<^verbatim>\<open>reindex\<close> have no value.
  A series is the list of its values in index order; two series of one computation
  carry the same index (\<^verbatim>\<open>execute_strategy\<close> re-indexes the signals to the price index), so
  element-wise arithmetic is positional.
\<close>

type_synonym cell = "real option"

definition fillna :: "real \<Rightarrow> cell \<Rightarrow> real" where
  "fillna d c = (case c of None \<Rightarrow> d | Some x \<Rightarrow> x)"

definition shift1 :: "real list \<Rightarrow> cell list" where
  \<comment> \<open>\<^verbatim>\<open>Series.shift(1)\<close>: every value moves one step later, the first cell is NaN.\<close>
  "shift1 xs = (if xs = [] then [] else None # map Some (butlast xs))"

definition diff :: "real list \<Rightarrow> cell list" where
  \<comment> \<open>\<^verbatim>\<open>Series.diff()\<close>: the value minus the previous one, NaN at the first step.\<close>
  "diff xs = map2 (\<lambda>x p. map_option (\<lambda>q. x - q) p) xs (shift1 xs)"

definition fdiv :: "real \<Rightarrow> real \<Rightarrow> cell" where
  \<comment> \<open>A zero divisor gives an IEEE infinity or NaN in the source, which the reals do not
      have: the model answers \<open>None\<close> there, and every statement below that divides is
      about strictly positive prices.\<close>
  "fdiv x y = (if y = 0 then None else Some (x / y))"

definition pct_change :: "real list \<Rightarrow> cell list" where
  \<comment> \<open>\<^verbatim>\<open>Series.pct_change()\<close>: \<open>p(t) / p(t-1) - 1\<close>, NaN at the first step.\<close>
  "pct_change xs =
     map2 (\<lambda>x p. case p of None \<Rightarrow> None | Some q \<Rightarrow> map_option (\<lambda>r. r - 1) (fdiv x q))
       xs (shift1 xs)"

text \<open>
  The timestamp of a daily bar is a calendar date: (year, month, day) in lexicographic
  order.
\<close>

type_synonym date = "int \<times> int \<times> int"

section \<open>The backtester: configuration and the cost model\<close>

record backtester =
  train_months :: int
  validation_months :: int
  test_months :: int
  roll_months :: int
  bid_ask_spread :: real
  slippage :: real

definition default_backtester :: backtester where
  "default_backtester =
     \<lparr>train_months = 36, validation_months = 6, test_months = 1, roll_months = 1,
      bid_ask_spread = 1 / 1000, slippage = 1 / 1000\<rparr>"

definition calculate_transaction_costs :: "backtester \<Rightarrow> real list \<Rightarrow> real list \<Rightarrow> real list" where
  "calculate_transaction_costs self positions prices =
     (let position_changes = map (fillna 0) (diff positions);
          total_cost_rate = bid_ask_spread self + slippage self
      in map2 (\<lambda>c p. \<bar>c\<bar> * total_cost_rate * p) position_changes prices)"

text \<open>
  Lines 136 to 144 of \<^verbatim>\<open>run_backtest_period\<close>: price returns, lagged strategy
  returns, cost returns and net returns.
\<close>

definition price_returns_of :: "real list \<Rightarrow> real list" where
  "price_returns_of prices = map (fillna 0) (pct_change prices)"

definition strategy_returns_of :: "real list \<Rightarrow> real list \<Rightarrow> cell list" where
  "strategy_returns_of positions prices =
     map2 (\<lambda>p r. map_option (\<lambda>q. q * r) p) (shift1 positions) (price_returns_of prices)"

definition cost_returns_of :: "backtester \<Rightarrow> real list \<Rightarrow> real list \<Rightarrow> cell list" where
  "cost_returns_of self positions prices =
     map2 (\<lambda>c p. case p of None \<Rightarrow> None | Some q \<Rightarrow> fdiv (- c) q)
       (calculate_transaction_costs self positions prices) (shift1 prices)"

definition net_returns_of :: "backtester \<Rightarrow> real list \<Rightarrow> real list \<Rightarrow> cell list" where
  "net_returns_of self positions prices =
     map2 (\<lambda>s c. map_option (\<lambda>x. x + fillna 0 c) s)
       (strategy_returns_of positions prices) (cost_returns_of self positions prices)"

section \<open>Period results and the aggregate report\<close>

text \<open>
  A period result is the dictionary \<^verbatim>\<open>run_backtest_period\<close> returns. A metric is a
  cell: the pandas and numpy statistics answer NaN on degenerate input. The dictionary
  has no \<^verbatim>\<open>window_id\<close> (\<open>None\<close>) until the loop over the windows sets it.
\<close>

record period_result =
  total_return :: cell
  volatility :: cell
  sharpe_ratio :: cell
  max_drawdown :: cell
  turnover :: cell
  beta :: cell
  num_trades :: nat
  win_rate :: cell
  profit_factor :: cell
  window_id :: "nat option"

text \<open>A window is the dictionary of six boundaries the window generator builds.\<close>

record 't window =
  train_start :: 't
  train_end :: 't
  val_start :: 't
  val_end :: 't
  test_start :: 't
  test_end :: 't

text \<open>
  The \<^verbatim>\<open>results\<close> dictionary of the walk-forward run. The key
  \<^verbatim>\<open>aggregate_metrics\<close> is absent (\<open>None\<close>) until the loop over the windows is over.
\<close>

record 't results =
  train_results :: "period_result list"
  validation_results :: "period_result list"
  test_results :: "period_result list"
  windows :: "'t window list"
  aggregate_metrics :: "(string \<rightharpoonup> cell) option"

text \<open>
  \<^verbatim>\<open>np.mean\<close>, \<^verbatim>\<open>np.std\<close> (population standard deviation) and \<^verbatim>\<open>np.min\<close> on a
  list of floats: NaN as soon as one element is NaN. A comparison with NaN is false.
\<close>

definition np_mean :: "cell list \<Rightarrow> cell" where
  "np_mean xs =
     (if xs = [] \<or> None \<in> set xs then None
      else Some (sum_list (map the xs) / real (length xs)))"

definition np_std :: "cell list \<Rightarrow> cell" where
  "np_std xs =
     (case np_mean xs of
        None \<Rightarrow> None
      | Some m \<Rightarrow> map_option sqrt (np_mean (map (map_option (\<lambda>x. \<bar>x - m\<bar> ^ 2)) xs)))"

definition np_min :: "cell list \<Rightarrow> cell" where
  "np_min xs =
     (if xs = [] \<or> None \<in> set xs then None else Some (Min (set (map the xs))))"

definition below :: "real \<Rightarrow> cell \<Rightarrow> bool" where
  "below c s = (case s of None \<Rightarrow> False | Some x \<Rightarrow> x < c)"

text \<open>\<^verbatim>\<open>results[f'{period}_results']\<close> for the three period names of the loop.\<close>

definition period_results_of :: "'t results \<Rightarrow> string \<Rightarrow> period_result list" where
  "period_results_of results period =
     (if period = ''train'' then train_results results
      else if period = ''validation'' then validation_results results
      else test_results results)"

text \<open>One round of the loop over the periods: the eight entries of a period with results.\<close>

definition aggregate_period ::
  "'t results \<Rightarrow> string \<Rightarrow> (string \<rightharpoonup> cell) \<Rightarrow> (string \<rightharpoonup> cell)" where
  "aggregate_period results period metrics =
     (let period_results = period_results_of results period
      in if period_results = [] then metrics
         else
           (let sharpe_ratios = map sharpe_ratio period_results
            in metrics
                 (period @ ''_avg_sharpe'' \<mapsto> np_mean (map sharpe_ratio period_results),
                  period @ ''_avg_return'' \<mapsto> np_mean (map total_return period_results),
                  period @ ''_avg_maxdd'' \<mapsto> np_mean (map max_drawdown period_results),
                  period @ ''_avg_turnover'' \<mapsto> np_mean (map turnover period_results),
                  period @ ''_avg_beta'' \<mapsto> np_mean (map beta period_results),
                  period @ ''_sharpe_std'' \<mapsto> np_std sharpe_ratios,
                  period @ ''_min_sharpe'' \<mapsto> np_min sharpe_ratios,
                  period @ ''_unstable_windows'' \<mapsto>
                     Some (real (length (filter (below (3 / 10)) sharpe_ratios))))))"

definition calculate_aggregate_metrics :: "'t results \<Rightarrow> (string \<rightharpoonup> cell)" where
  "calculate_aggregate_metrics results =
     fold (aggregate_period results) [''train'', ''validation'', ''test''] Map.empty"

definition metric_suffixes :: "string list" where
  "metric_suffixes = [''_avg_sharpe'', ''_avg_return'', ''_avg_maxdd'', ''_avg_turnover'',
     ''_avg_beta'', ''_sharpe_std'', ''_min_sharpe'', ''_unstable_windows'']"

text \<open>
  What the loop leaves under the key \<^verbatim>\<open>period + s\<close>, read off the eight assignments:
  the statement the lemmas below compare the fold with.
\<close>

definition period_report :: "period_result list \<Rightarrow> string \<Rightarrow> cell option" where
  "period_report rs s =
     (if rs = [] then None
      else if s = ''_avg_sharpe'' then Some (np_mean (map sharpe_ratio rs))
      else if s = ''_avg_return'' then Some (np_mean (map total_return rs))
      else if s = ''_avg_maxdd'' then Some (np_mean (map max_drawdown rs))
      else if s = ''_avg_turnover'' then Some (np_mean (map turnover rs))
      else if s = ''_avg_beta'' then Some (np_mean (map beta rs))
      else if s = ''_sharpe_std'' then Some (np_std (map sharpe_ratio rs))
      else if s = ''_min_sharpe'' then Some (np_min (map sharpe_ratio rs))
      else if s = ''_unstable_windows'' then
        Some (Some (real (length (filter (below (3 / 10)) (map sharpe_ratio rs)))))
      else None)"

text \<open>A results dictionary with two train results and no validation or test result.\<close>

definition two_windows :: "date results" where
  "two_windows =
     \<lparr>train_results =
        [\<lparr>total_return = Some (1 / 10), volatility = Some (2 / 10), sharpe_ratio = Some 0,
          max_drawdown = Some (- (1 / 10)), turnover = Some 0, beta = None, num_trades = 4,
          win_rate = Some (1 / 2), profit_factor = Some 2, window_id = Some 0\<rparr>,
         \<lparr>total_return = Some (3 / 10), volatility = Some (4 / 10), sharpe_ratio = Some 2,
          max_drawdown = Some (- (3 / 10)), turnover = Some 1, beta = None, num_trades = 6,
          win_rate = Some (1 / 2), profit_factor = Some 2, window_id = Some 1\<rparr>],
      validation_results = [], test_results = [], windows = [],
      aggregate_metrics = None\<rparr>"

text \<open>
  The same dictionary with other volatilities, trade counts, win rates and profit
  factors.
\<close>

definition two_windows_other :: "date results" where
  "two_windows_other =
     two_windows\<lparr>train_results :=
       map (\<lambda>r. r\<lparr>volatility := Some 1, num_trades := 0, win_rate := Some 0,
                       profit_factor := Some 0\<rparr>)
         (train_results two_windows)\<rparr>"

section \<open>The window generator\<close>

text \<open>
  Indexing an empty selection, \<^verbatim>\<open>x[0]\<close> or \<^verbatim>\<open>x[-1]\<close>, raises \<^verbatim>\<open>IndexError\<close>.
\<close>

definition first_of :: "'a list \<Rightarrow> py_error + 'a" where
  "first_of xs =
     (case xs of
        [] \<Rightarrow> Inl (IndexError ''index 0 is out of bounds for axis 0 with size 0'')
      | x # _ \<Rightarrow> Inr x)"

definition last_of :: "'a list \<Rightarrow> py_error + 'a" where
  "last_of xs =
     (if xs = [] then Inl (IndexError ''index -1 is out of bounds for axis 0 with size 0'')
      else Inr (last xs))"

definition and_then :: "'e + 'a \<Rightarrow> ('a \<Rightarrow> 'e + 'b) \<Rightarrow> 'e + 'b" where
  \<comment> \<open>Sequencing of statements that may raise: the first exception ends the block.\<close>
  "and_then r f = (case r of Inl e \<Rightarrow> Inl e | Inr x \<Rightarrow> f x)"

text \<open>
  The body of the loop after the bound check: the six boundaries are looked up in the
  index of the data, in the order of the source.
\<close>

definition window_at :: "('t::linorder) list \<Rightarrow> 't \<Rightarrow> 't \<Rightarrow> 't \<Rightarrow> 't \<Rightarrow> py_error + 't window" where
  "window_at index current_start train_end' val_end' test_end' =
     and_then (first_of (filter (\<lambda>t. t \<ge> current_start) index)) (\<lambda>train_start_actual.
     and_then (last_of (filter (\<lambda>t. t \<le> train_end') index)) (\<lambda>train_end_actual.
     and_then (first_of (filter (\<lambda>t. t > train_end_actual) index)) (\<lambda>val_start_actual.
     and_then (last_of (filter (\<lambda>t. t \<le> val_end') index)) (\<lambda>val_end_actual.
     and_then (first_of (filter (\<lambda>t. t > val_end_actual) index)) (\<lambda>test_start_actual.
     and_then (last_of (filter (\<lambda>t. t \<le> test_end') index)) (\<lambda>test_end_actual.
       Inr \<lparr>train_start = train_start_actual, train_end = train_end_actual,
            val_start = val_start_actual, val_end = val_end_actual,
            test_start = test_start_actual, test_end = test_end_actual\<rparr>))))))"

text \<open>
  The \<^verbatim>\<open>while True\<close> loop. It has no bound of its own (a roll of zero months never
  leaves it), so the model counts rounds: \<open>None\<close> is a loop that has not returned
  within the fuel. \<open>add_months n t\<close> stands for \<^verbatim>\<open>t + pd.DateOffset(months=n)\<close>;
  the primed names are the calendar boundaries, before they are looked up in the index.
\<close>

fun windows_loop ::
  "nat \<Rightarrow> (int \<Rightarrow> 't \<Rightarrow> 't) \<Rightarrow> backtester \<Rightarrow> ('t::linorder) list \<Rightarrow> 't \<Rightarrow> 't \<Rightarrow> 't window list
     \<Rightarrow> (py_error + 't window list) option" where
  "windows_loop 0 add_months self index data_end current_start windows' = None"
| "windows_loop (Suc fuel) add_months self index data_end current_start windows' =
     (let train_end' = add_months (train_months self) current_start;
          val_end' = add_months (validation_months self) train_end';
          test_end' = add_months (test_months self) val_end'
      in if test_end' > data_end then Some (Inr windows')
         else
           (case window_at index current_start train_end' val_end' test_end' of
              Inl e \<Rightarrow> Some (Inl e)
            | Inr window \<Rightarrow>
                windows_loop fuel add_months self index data_end
                  (add_months (roll_months self) current_start) (windows' @ [window])))"

definition generate_walk_forward_windows ::
  "nat \<Rightarrow> (int \<Rightarrow> 't \<Rightarrow> 't) \<Rightarrow> backtester \<Rightarrow> ('t::linorder) list
     \<Rightarrow> (py_error + 't window list) option" where
  "generate_walk_forward_windows fuel add_months self index =
     (case first_of index of
        Inl e \<Rightarrow> Some (Inl e)
      | Inr data_start \<Rightarrow>
          (case last_of index of
             Inl e \<Rightarrow> Some (Inl e)
           | Inr data_end \<Rightarrow>
               windows_loop fuel add_months self index data_end data_start []))"

text \<open>
  On calendar dates \<^verbatim>\<open>pd.DateOffset(months=n)\<close> moves the month and clips the day to
  the length of the target month.
\<close>

definition days_in_month :: "int \<Rightarrow> int \<Rightarrow> int" where
  "days_in_month y m =
     (if m = 2 then (if y mod 4 = 0 \<and> (y mod 100 \<noteq> 0 \<or> y mod 400 = 0) then 29 else 28)
      else if m = 4 \<or> m = 6 \<or> m = 9 \<or> m = 11 then 30
      else 31)"

definition date_offset_months :: "int \<Rightarrow> date \<Rightarrow> date" where
  "date_offset_months n t =
     (case t of (y, m, d) \<Rightarrow>
        (let k = y * 12 + (m - 1) + n; y' = k div 12; m' = k mod 12 + 1
         in (y', m', min d (days_in_month y' m'))))"

definition monthly_bt :: backtester where
  "monthly_bt =
     \<lparr>train_months = 1, validation_months = 1, test_months = 1, roll_months = 1,
      bid_ask_spread = 1 / 1000, slippage = 1 / 1000\<rparr>"


definition fortnightly_index :: "date list" where
  "fortnightly_index =
     [(2020, 1, 1), (2020, 1, 15), (2020, 2, 1), (2020, 2, 15), (2020, 3, 1), (2020, 3, 15),
      (2020, 4, 1)]"

text \<open>The number of the month of a date, counted from year 0.\<close>

definition month_index :: "date \<Rightarrow> int" where
  "month_index t = (case t of (y, m, d) \<Rightarrow> y * 12 + (m - 1))"

definition valid_month :: "date \<Rightarrow> bool" where
  "valid_month t = (case t of (y, m, d) \<Rightarrow> 1 \<le> m \<and> m \<le> 12)"

section \<open>The execution of a strategy\<close>

text \<open>
  What a strategy can leave in \<^verbatim>\<open>signals\<close>: a series (labels with values), a
  dictionary from labels to numbers, a sequence of numbers (list or array), one number
  (\<open>None\<close> for NaN and for Python's \<^verbatim>\<open>None\<close>), or an object that is none of
  these, named by its type. Labels are timestamps.
\<close>

datatype 't py_value =
    Series "('t \<times> cell) list"
  | Dict "('t \<times> cell) list"
  | Sequence "cell list"
  | Scalar cell
  | Object string

text \<open>
  \<^verbatim>\<open>exec(strategy_code, execution_env)\<close> is the Python interpreter: it either raises
  or finishes and leaves the namespace behind. The model takes it as a parameter, a
  function of the code and the price series bound in the namespace. A run that never
  ends has no value here.
\<close>

datatype 't exec_result =
    Raised py_error
  | Finished "string \<rightharpoonup> 't py_value"

fun string_of_nat :: "nat \<Rightarrow> string" where
  "string_of_nat n =
     (if n < 10 then [char_of (48 + n)]
      else string_of_nat (n div 10) @ [char_of (48 + n mod 10)])"

definition to_series :: "'t py_value \<Rightarrow> 't list \<Rightarrow> py_error + ('t \<times> cell) list" where
  \<comment> \<open>\<^verbatim>\<open>pd.Series(signals, index=price_data.index)\<close> unless \<^verbatim>\<open>signals\<close> is a series
      already: a number is repeated, a sequence must have the length of the index, a
      dictionary is looked up label by label. Another object fails here or in the clip
      that follows, inside the same \<^verbatim>\<open>try\<close> block; the model raises at once.\<close>
  "to_series signals index =
     (case signals of
        Series s \<Rightarrow> Inr s
      | Dict d \<Rightarrow> Inr (map (\<lambda>t. (t, case map_of d t of None \<Rightarrow> None | Some c \<Rightarrow> c)) index)
      | Sequence xs \<Rightarrow>
          (if length xs = length index then Inr (zip index xs)
           else Inl (ValueError (''Length of values ('' @ string_of_nat (length xs)
                  @ '') does not match length of index ('' @ string_of_nat (length index)
                  @ '')'')))
      | Scalar c \<Rightarrow> Inr (map (\<lambda>t. (t, c)) index)
      | Object ty \<Rightarrow> Inl (TypeError (''unsupported operand type: '' @ ty)))"

definition pad_value :: "('t \<times> cell) list \<Rightarrow> cell" where
  \<comment> \<open>The value of the last row of a selection, NaN when the selection is empty.\<close>
  "pad_value rows = (if rows = [] then None else snd (last rows))"

definition reindex_ffill :: "('t::linorder \<times> cell) list \<Rightarrow> 't list \<Rightarrow> py_error + ('t \<times> cell) list" where
  \<comment> \<open>\<^verbatim>\<open>Series.reindex(index, method='ffill')\<close>: an identical index is copied; otherwise
      the labels must be unique and monotonic, and every target label takes the value of
      the last row at or before it (at or after it, in a decreasing index), NaN when
      there is none. A NaN of the source stays NaN.\<close>
  "reindex_ffill s index =
     (if map fst s = index then Inr s
      else if \<not> distinct (map fst s) then
        Inl (ValueError ''cannot reindex on an axis with duplicate labels'')
      else if sorted (map fst s) then
        Inr (map (\<lambda>t. (t, pad_value (filter (\<lambda>(l, c). l \<le> t) s))) index)
      else if sorted (rev (map fst s)) then
        Inr (map (\<lambda>t. (t, pad_value (filter (\<lambda>(l, c). t \<le> l) s))) index)
      else Inl (ValueError ''index must be monotonic increasing or decreasing''))"

definition np_clip :: "real \<Rightarrow> real \<Rightarrow> real \<Rightarrow> real" where
  "np_clip x lo hi = min (max x lo) hi"

definition run_strategy ::
  "(string \<Rightarrow> ('t \<times> real) list \<Rightarrow> 't exec_result) \<Rightarrow> string \<Rightarrow> ('t::linorder \<times> real) list
     \<Rightarrow> py_error + ('t \<times> real) list" where
  \<comment> \<open>The body of the \<^verbatim>\<open>try\<close> block of \<^verbatim>\<open>execute_strategy\<close>.\<close>
  "run_strategy exec_py strategy_code price_data =
     (case exec_py strategy_code price_data of
        Raised e \<Rightarrow> Inl e
      | Finished execution_env \<Rightarrow>
          (case execution_env ''signals'' of
             None \<Rightarrow> Inl (ValueError ''Strategy must define 'signals' variable'')
           | Some signals \<Rightarrow>
               and_then (to_series signals (map fst price_data)) (\<lambda>signals.
               and_then (reindex_ffill signals (map fst price_data)) (\<lambda>signals.
                 Inr (map (\<lambda>(t, c). (t, np_clip (fillna 0 c) (- 1) 1)) signals)))))"

definition execute_strategy ::
  "(string \<Rightarrow> ('t \<times> real) list \<Rightarrow> 't exec_result) \<Rightarrow> string \<Rightarrow> ('t::linorder \<times> real) list
     \<Rightarrow> py_error + ('t \<times> real) list" where
  \<comment> \<open>\<^verbatim>\<open>except Exception as e: raise RuntimeError(f"Strategy execution failed: {str(e)}")\<close>\<close>
  "execute_strategy exec_py strategy_code price_data =
     (case run_strategy exec_py strategy_code price_data of
        Inl e \<Rightarrow> Inl (RuntimeError (''Strategy execution failed: '' @ str_of e))
      | Inr signals \<Rightarrow> Inr signals)"

text \<open>
  Four strategies and what the interpreter does with them. The first is the strategy of
  the test \<^verbatim>\<open>test_invalid_strategy_handling\<close>, which binds the mean price and no
  signals. The second binds a series on three of the dates, with a missing value and
  with values outside the range. The third binds a list of three numbers. The last is
  buy and hold.
\<close>

definition no_signals_code :: string where
  "no_signals_code = ''price_mean = price.mean()''"

definition sparse_code :: string where
  "sparse_code =
     ''signals = pd.Series([2.5, float('nan'), -3.0], index=price.index[[1, 3, 4]])''"

definition three_ones_code :: string where
  "three_ones_code = ''signals = [1.0, 1.0, 1.0]''"

definition buy_and_hold_code :: string where
  "buy_and_hold_code = ''signals = pd.Series(1.0, index=price.index)''"

definition exec_examples :: "string \<Rightarrow> (date \<times> real) list \<Rightarrow> date exec_result" where
  "exec_examples code price_data =
     (if code = no_signals_code then
        Finished [''price_mean'' \<mapsto>
          Scalar (if price_data = [] then None
                  else Some (sum_list (map snd price_data) / real (length price_data)))]
      else if code = sparse_code then
        (if length price_data < 5 then
           Raised (IndexError (''index 4 is out of bounds for axis 0 with size ''
                     @ string_of_nat (length price_data)))
         else
           Finished [''signals'' \<mapsto>
             Series [(fst (price_data ! 1), Some (5 / 2)), (fst (price_data ! 3), None),
                     (fst (price_data ! 4), Some (- 3))]])
      else if code = three_ones_code then
        Finished [''signals'' \<mapsto> Sequence [Some 1, Some 1, Some 1]]
      else if code = buy_and_hold_code then
        Finished [''signals'' \<mapsto> Series (map (\<lambda>(t, p). (t, Some 1)) price_data)]
      else Raised (OtherException ''not one of the four strategies''))"

definition five_days :: "(date \<times> real) list" where
  "five_days =
     [((2020, 1, 1), 100), ((2020, 1, 2), 101), ((2020, 1, 3), 102), ((2020, 1, 4), 103),
      ((2020, 1, 5), 104)]"

section \<open>The backtest of one period and the walk-forward run\<close>

text \<open>
  The data frame is the list of its rows in index order, a timestamp with its close (the
  only column the backtester reads); \<^verbatim>\<open>data.loc[start_date:end_date]\<close> on its
  increasing index keeps the rows between the two dates, both included. Lines 146 to 187
  compute the nine metrics from the prices, the positions and the net returns with
  pandas, numpy and vectorbt: the model takes that computation as the parameter
  \<open>metrics_of\<close>, which may raise.
\<close>

definition run_backtest_period ::
  "(string \<Rightarrow> ('t \<times> real) list \<Rightarrow> 't exec_result)
     \<Rightarrow> (real list \<Rightarrow> real list \<Rightarrow> cell list \<Rightarrow> py_error + period_result)
     \<Rightarrow> backtester \<Rightarrow> string \<Rightarrow> ('t::linorder \<times> real) list \<Rightarrow> 't \<Rightarrow> 't
     \<Rightarrow> py_error + period_result" where
  "run_backtest_period exec_py metrics_of self strategy_code data start_date end_date =
     (let period_data = filter (\<lambda>(t, c). start_date \<le> t \<and> t \<le> end_date) data
      in if length period_data < 2 then Inl (ValueError ''Insufficient data for period'')
         else
           and_then (execute_strategy exec_py strategy_code period_data) (\<lambda>signals.
             (let prices = map snd period_data;
                  positions = map snd signals;
                  net_returns = net_returns_of self positions prices
              in metrics_of prices positions net_returns)))"

text \<open>
  One round of the loop over the windows. Each period result is appended to its list as
  soon as its run returns; the handler \<^verbatim>\<open>except Exception\<close> prints the error and goes
  on with the next window, keeping the dictionary as it is at that moment.
\<close>

definition run_window ::
  "(string \<Rightarrow> ('t \<times> real) list \<Rightarrow> 't exec_result)
     \<Rightarrow> (real list \<Rightarrow> real list \<Rightarrow> cell list \<Rightarrow> py_error + period_result)
     \<Rightarrow> backtester \<Rightarrow> string \<Rightarrow> ('t::linorder \<times> real) list \<Rightarrow> nat \<times> 't window
     \<Rightarrow> 't results \<Rightarrow> 't results" where
  "run_window exec_py metrics_of self strategy_code data iw results =
     (case iw of (i, window) \<Rightarrow>
       (case run_backtest_period exec_py metrics_of self strategy_code data
               (train_start window) (train_end window) of
          Inl e \<Rightarrow> results
        | Inr train_result \<Rightarrow>
           (let results1 = results\<lparr>train_results :=
                  train_results results @ [train_result\<lparr>window_id := Some i\<rparr>]\<rparr>
            in case run_backtest_period exec_py metrics_of self strategy_code data
                      (val_start window) (val_end window) of
                 Inl e \<Rightarrow> results1
               | Inr val_result \<Rightarrow>
                  (let results2 = results1\<lparr>validation_results :=
                         validation_results results1 @ [val_result\<lparr>window_id := Some i\<rparr>]\<rparr>
                   in case run_backtest_period exec_py metrics_of self strategy_code data
                             (test_start window) (test_end window) of
                        Inl e \<Rightarrow> results2
                      | Inr test_result \<Rightarrow>
                          results2\<lparr>test_results :=
                            test_results results2 @ [test_result\<lparr>window_id := Some i\<rparr>]\<rparr>))))"

definition run_walk_forward_backtest ::
  "nat \<Rightarrow> (int \<Rightarrow> 't \<Rightarrow> 't)
     \<Rightarrow> (string \<Rightarrow> ('t \<times> real) list \<Rightarrow> 't exec_result)
     \<Rightarrow> (real list \<Rightarrow> real list \<Rightarrow> cell list \<Rightarrow> py_error + period_result)
     \<Rightarrow> backtester \<Rightarrow> string \<Rightarrow> ('t::linorder \<times> real) list
     \<Rightarrow> (py_error + 't results) option" where
  "run_walk_forward_backtest fuel add_months exec_py metrics_of self strategy_code data =
     (case generate_walk_forward_windows fuel add_months self (map fst data) of
        None \<Rightarrow> None
      | Some (Inl e) \<Rightarrow> Some (Inl e)
      | Some (Inr ws) \<Rightarrow>
          (if ws = [] then
             Some (Inl (ValueError ''Insufficient data for walk-forward backtesting''))
           else
             (let results0 = \<lparr>train_results = [], validation_results = [], test_results = [],
                              windows = ws, aggregate_metrics = None\<rparr>;
                  results1 = fold (run_window exec_py metrics_of self strategy_code data)
                               (enumerate 0 ws) results0
              in Some (Inr (results1\<lparr>aggregate_metrics :=
                              Some (calculate_aggregate_metrics results1)\<rparr>)))))"

text \<open>
  What one window adds to the three lists, read off the order of the three runs: the
  results of the runs before the first one that raises.
\<close>

definition tagged :: "nat \<Rightarrow> period_result \<Rightarrow> period_result" where
  "tagged i r = r\<lparr>window_id := Some i\<rparr>"


text \<open>Readers of the returned dictionary.\<close>

definition result_lists ::
  "'t results \<Rightarrow> period_result list \<times> period_result list \<times> period_result list" where
  "result_lists r = (train_results r, validation_results r, test_results r)"


text \<open>
  Fortnightly closes, and a metrics computation that answers the same dictionary for
  every period.
\<close>

definition fortnightly_data :: "(date \<times> real) list" where
  "fortnightly_data = zip fortnightly_index [100, 101, 102, 103, 104, 105, 106]"

definition flat_result :: period_result where
  "flat_result =
     \<lparr>total_return = Some 0, volatility = Some 0, sharpe_ratio = Some 0,
      max_drawdown = Some 0, turnover = Some 0, beta = None, num_trades = 0,
      win_rate = Some 0, profit_factor = Some 0, window_id = None\<rparr>"

definition flat_metrics :: "real list \<Rightarrow> real list \<Rightarrow> cell list \<Rightarrow> py_error + period_result" where
  "flat_metrics prices positions net_returns = Inr flat_result"

section \<open>The guard rail: regular expressions\<close>

text \<open>
  Source text is a list of ASCII characters. The patterns of the guard rail need
  literals, character classes, repetition of a class, sequence and alternative; they are
  written in compiled form. Every search of the guard rail passes \<^verbatim>\<open>re.IGNORECASE\<close>,
  so characters are compared in lower case.
\<close>

datatype regex =
    Lit string
  | One "char list"
  | Star "char list"
  | Plus "char list"
  | Seq regex regex
  | Alt regex regex

definition to_lower :: "char \<Rightarrow> char" where
  "to_lower c =
     (let n = (of_char c :: nat) in if 65 \<le> n \<and> n \<le> 90 then char_of (n + 32) else c)"

definition in_class :: "char list \<Rightarrow> char \<Rightarrow> bool" where
  "in_class cs c = (to_lower c \<in> set (map to_lower cs))"

text \<open>
  \<open>ci_prefix w s\<close> reads the literal \<open>w\<close> at the start of \<open>s\<close> and answers the rest
  of \<open>s\<close>. \<open>matches r s\<close> lists what is left of \<open>s\<close> after each way \<open>r\<close> matches
  a prefix of it, in the order the backtracking matcher tries them: a repetition takes as
  much as it can first, an alternative tries its left side first.
\<close>

fun ci_prefix :: "string \<Rightarrow> string \<Rightarrow> string option" where
  "ci_prefix [] s = Some s"
| "ci_prefix (p # ps) [] = None"
| "ci_prefix (p # ps) (c # cs) = (if to_lower p = to_lower c then ci_prefix ps cs else None)"

fun matches :: "regex \<Rightarrow> string \<Rightarrow> string list" where
  "matches (Lit w) s = (case ci_prefix w s of None \<Rightarrow> [] | Some rest \<Rightarrow> [rest])"
| "matches (One cs) s =
     (case s of [] \<Rightarrow> [] | c # rest \<Rightarrow> if in_class cs c then [rest] else [])"
| "matches (Star cs) s =
     map (\<lambda>k. drop k s) (rev [0 ..< Suc (length (takeWhile (in_class cs) s))])"
| "matches (Plus cs) s =
     map (\<lambda>k. drop k s) (rev [1 ..< Suc (length (takeWhile (in_class cs) s))])"
| "matches (Seq a b) s = concat (map (matches b) (matches a s))"
| "matches (Alt a b) s = matches a s @ matches b s"

fun re_search :: "regex \<Rightarrow> string \<Rightarrow> bool" where
  \<comment> \<open>\<^verbatim>\<open>re.search(pattern, code, re.IGNORECASE)\<close> as a truth value: a match at some
      position, the end of the text included.\<close>
  "re_search r [] = (matches r [] \<noteq> [])"
| "re_search r (c # s) = (matches r (c # s) \<noteq> [] \<or> re_search r s)"

definition match_group :: "regex \<times> regex \<Rightarrow> string \<Rightarrow> (string \<times> string) option" where
  \<comment> \<open>A pattern that ends in its only group, as a pair of the part before the group and
      the group: the first match at the start of \<open>s\<close>, as the text of the group and the
      rest of \<open>s\<close> after the match.\<close>
  "match_group p s =
     (case concat (map (\<lambda>r1. map (\<lambda>r2. (take (length r1 - length r2) r1, r2))
                                 (matches (snd p) r1))
                       (matches (fst p) s)) of
        [] \<Rightarrow> None
      | x # _ \<Rightarrow> Some x)"

function findall :: "regex \<times> regex \<Rightarrow> string \<Rightarrow> string list" where
  \<comment> \<open>\<^verbatim>\<open>re.findall\<close> for a pattern with one group: the group of every match, from left
      to right, each search starting where the last match ended.\<close>
  "findall p s =
     (case match_group p s of
        Some (g, rest) \<Rightarrow>
          (if length rest < length s then g # findall p rest
           else (case s of [] \<Rightarrow> [g] | c # s' \<Rightarrow> g # findall p s'))
      | None \<Rightarrow> (case s of [] \<Rightarrow> [] | c # s' \<Rightarrow> findall p s'))"
  by pat_completeness auto
termination
  by (relation "measure (\<lambda>(p, s). length s)") auto

definition whitespace :: "char list" where
  "whitespace = [CHR 0x20, CHR 0x09, CHR 0x0A, CHR 0x0B, CHR 0x0C, CHR 0x0D,
                 CHR 0x1C, CHR 0x1D, CHR 0x1E, CHR 0x1F]"

definition digits :: "char list" where
  "digits = ''0123456789''"

section \<open>The guard rail: numbers in the source text\<close>

definition isdigit :: "string \<Rightarrow> bool" where
  \<comment> \<open>\<^verbatim>\<open>str.isdigit()\<close>: not empty, digits only.\<close>
  "isdigit s = (s \<noteq> [] \<and> (\<forall>c \<in> set s. c \<in> set digits))"

definition digit_value :: "char \<Rightarrow> nat" where
  "digit_value c = of_char c - 48"

definition decimal :: "string \<Rightarrow> nat" where
  "decimal s = foldl (\<lambda>n c. 10 * n + digit_value c) 0 s"

definition py_float :: "string \<Rightarrow> py_error + real" where
  \<comment> \<open>\<^verbatim>\<open>float(match)\<close> on a text of digits and dots with a digit in it: a number when
      there is at most one dot, \<^verbatim>\<open>ValueError\<close> otherwise.\<close>
  "py_float s =
     (if length (filter (\<lambda>c. c = CHR ''.'') s) \<le> 1 then
        (let whole = takeWhile (\<lambda>c. c \<noteq> CHR ''.'') s;
             frac = drop (Suc (length whole)) s
         in Inr (real (decimal whole) + real (decimal frac) / 10 ^ length frac))
      else Inl (ValueError (''could not convert string to float: '' @ [CHR 0x27] @ s @ [CHR 0x27])))"

section \<open>The guard rail: the syntax tree\<close>

text \<open>
  The nodes the two visitors look at, and \<open>Node\<close> for every other node with its
  children in field order. A call has its function, its arguments and the values of its
  keywords; a constant is a string or another value, kept as its \<^verbatim>\<open>str\<close>.
  \<^verbatim>\<open>ast.parse\<close> is the Python parser: the model takes it as a parameter, which answers
  the message of the \<^verbatim>\<open>SyntaxError\<close> or the tree.
\<close>

datatype const = StrConst string | OtherConst string

datatype ast =
    Import "string list"
  | ImportFrom "string option"
  | Call ast "ast list" "ast list"
  | Attribute ast string
  | Name string
  | Constant const
  | Node "ast list"

datatype violation =
    SyntaxErrorMessage string
  | BannedPattern regex
  | BannedImport string
  | BannedImportFrom string
  | BannedFunctionCall string
  | BannedMethodCall string
  | BannedModuleAccess string string
  | ForwardLooking regex
  | LeverageExceeds real
  | PositionSizeExceeds real
  | FileOutsideTmp string
  | NetworkOperation regex

record guard_rail =
  allowed_libraries :: "string list"
  banned_patterns :: "regex list"
  max_leverage :: real
  max_position_pct :: real

definition static_guard_rail :: guard_rail where
  "static_guard_rail =
     \<lparr>allowed_libraries = [''pandas'', ''numpy'', ''vectorbt'', ''math'', ''datetime''],
      banned_patterns =
        [Lit ''.now()'', Lit ''time.time()'', Lit ''.today()'', Lit ''requests.'',
         Lit ''urllib.'', Lit ''http'', Lit ''socket.'', Lit ''open('', Lit ''file('',
         Lit ''input('', Lit ''eval('', Lit ''exec(''],
      max_leverage = 2,
      max_position_pct = 5 / 100\<rparr>"

record verdict =
  passed :: bool
  errors :: "violation list"

section \<open>The guard rail: the checks\<close>

definition check_banned_patterns :: "guard_rail \<Rightarrow> string \<Rightarrow> violation list" where
  "check_banned_patterns self code =
     map BannedPattern (filter (\<lambda>pattern. re_search pattern code) (banned_patterns self))"

text \<open>
  \<^verbatim>\<open>DangerousVisitor\<close>: a node's own violations come before those of its children,
  which \<^verbatim>\<open>generic_visit\<close> visits in field order.
\<close>

definition starts_with :: "string \<Rightarrow> string \<Rightarrow> bool" where
  \<comment> \<open>\<^verbatim>\<open>s.startswith(p)\<close>\<close>
  "starts_with p s = (take (length p) s = p)"

fun dangerous_visit :: "guard_rail \<Rightarrow> ast \<Rightarrow> violation list" where
  "dangerous_visit self (Import names) =
     map BannedImport (filter (\<lambda>name. name \<notin> set (allowed_libraries self)) names)"
| "dangerous_visit self (ImportFrom modname) =
     (case modname of
        None \<Rightarrow> []
      | Some m \<Rightarrow>
          (if m \<noteq> [] \<and> m \<notin> set (allowed_libraries self)
              \<and> \<not> (\<exists>lib \<in> set [''pandas'', ''numpy'', ''vectorbt'', ''math'', ''datetime''].
                      starts_with lib m)
           then [BannedImportFrom m] else []))"
| "dangerous_visit self (Call func args keywords) =
     (case func of
        Name ident \<Rightarrow>
          (if ident \<in> set [''eval'', ''exec'', ''input'', ''__import__'']
           then [BannedFunctionCall ident] else [])
      | Attribute v attr \<Rightarrow>
          (if attr \<in> set [''now'', ''today''] then [BannedMethodCall attr] else [])
      | _ \<Rightarrow> [])
     @ dangerous_visit self func
     @ concat (map (dangerous_visit self) args)
     @ concat (map (dangerous_visit self) keywords)"
| "dangerous_visit self (Attribute v attr) =
     (case v of
        Name ident \<Rightarrow>
          (if ident = ''os'' \<or> ident = ''sys'' then [BannedModuleAccess ident attr] else [])
      | _ \<Rightarrow> [])
     @ dangerous_visit self v"
| "dangerous_visit self (Name ident) = []"
| "dangerous_visit self (Constant c) = []"
| "dangerous_visit self (Node children) = concat (map (dangerous_visit self) children)"

definition check_ast :: "guard_rail \<Rightarrow> ast \<Rightarrow> violation list" where
  "check_ast self tree = dangerous_visit self tree"

definition check_forward_looking :: "string \<Rightarrow> violation list" where
  "check_forward_looking code =
     (let forward_patterns =
            [Seq (Lit ''.shift('') (Seq (Star whitespace) (Lit ''-'')),
             Lit ''future'', Lit ''tomorrow'', Lit ''next_'', Lit ''lead('']
      in map ForwardLooking (filter (\<lambda>pattern. re_search pattern code) forward_patterns))"

text \<open>
  The two loops of \<^verbatim>\<open>_check_position_sizing\<close>. A match that is digits once its dots
  are removed goes to \<^verbatim>\<open>float\<close>, whose \<^verbatim>\<open>ValueError\<close> nothing catches.
\<close>

fun scan_matches ::
  "real \<Rightarrow> (real \<Rightarrow> violation) \<Rightarrow> string list \<Rightarrow> violation list \<Rightarrow> py_error + violation list" where
  "scan_matches limit mk [] violations = Inr violations"
| "scan_matches limit mk (m # ms) violations =
     (if isdigit (filter (\<lambda>c. c \<noteq> CHR ''.'') m) then
        (case py_float m of
           Inl e \<Rightarrow> Inl e
         | Inr v \<Rightarrow>
             scan_matches limit mk ms (if v > limit then violations @ [mk v] else violations))
      else scan_matches limit mk ms violations)"

fun scan_patterns ::
  "real \<Rightarrow> (real \<Rightarrow> violation) \<Rightarrow> (regex \<times> regex) list \<Rightarrow> string \<Rightarrow> violation list
     \<Rightarrow> py_error + violation list" where
  "scan_patterns limit mk [] code violations = Inr violations"
| "scan_patterns limit mk (pattern # patterns) code violations =
     and_then (scan_matches limit mk (findall pattern code) violations)
       (scan_patterns limit mk patterns code)"

definition number_group :: regex where
  "number_group = Plus (digits @ ''.'')"

definition check_position_sizing :: "guard_rail \<Rightarrow> string \<Rightarrow> py_error + violation list" where
  "check_position_sizing self code =
     (let leverage_patterns =
            [(Seq (Lit ''leverage'') (Seq (Star whitespace) (Seq (One ''=:'') (Star whitespace))),
              number_group),
             (Seq (Lit ''margin'') (Seq (Star whitespace) (Seq (One ''=:'') (Star whitespace))),
              number_group),
             (Seq (Lit ''*'') (Star whitespace),
              Alt (One ''3456789'') (Seq (One ''123456789'') (Plus digits)))];
          position_patterns =
            [(Seq (Lit ''position'') (Seq (Star whitespace) (Seq (One ''>>='') (Star whitespace))),
              number_group),
             (Seq (Lit ''size'') (Seq (Star whitespace) (Seq (One ''>>='') (Star whitespace))),
              number_group)]
      in and_then (scan_patterns (max_leverage self) LeverageExceeds leverage_patterns code [])
           (scan_patterns (max_position_pct self) PositionSizeExceeds position_patterns code))"

text \<open>
  \<^verbatim>\<open>FileVisitor\<close>: a call of \<^verbatim>\<open>open\<close> or \<^verbatim>\<open>file\<close> whose first argument is a constant
  that does not start with \<^verbatim>\<open>/tmp\<close>. \<^verbatim>\<open>ast.Str\<close> is the string constant; any other
  constant is read through \<^verbatim>\<open>str\<close>.
\<close>

fun file_visit :: "ast \<Rightarrow> violation list" where
  "file_visit (Call func args keywords) =
     (case func of
        Name ident \<Rightarrow>
          (if ident \<in> set [''open'', ''file''] then
             (case args of
                Constant (StrConst path) # _ \<Rightarrow>
                  (if \<not> starts_with ''/tmp'' path then [FileOutsideTmp path] else [])
              | Constant (OtherConst path) # _ \<Rightarrow>
                  (if \<not> starts_with ''/tmp'' path then [FileOutsideTmp path] else [])
              | _ \<Rightarrow> [])
           else [])
      | _ \<Rightarrow> [])
     @ file_visit func
     @ concat (map file_visit args)
     @ concat (map file_visit keywords)"
| "file_visit (Attribute v attr) = file_visit v"
| "file_visit (Node children) = concat (map file_visit children)"
| "file_visit (Import names) = []"
| "file_visit (ImportFrom modname) = []"
| "file_visit (Name ident) = []"
| "file_visit (Constant c) = []"

definition check_file_operations :: "ast \<Rightarrow> violation list" where
  "check_file_operations tree = file_visit tree"

definition network_patterns :: "regex list" where
  "network_patterns =
     [Lit ''requests.'', Lit ''urllib.'', Lit ''aiohttp.'', Lit ''socket.'', Lit ''http.'',
      Lit ''ftp.'', Lit ''smtp.'', Lit ''.get('', Lit ''.post('', Lit ''.put('',
      Lit ''.delete('', Lit ''.download'', Lit ''.fetch'']"

definition check_network_operations :: "string \<Rightarrow> violation list" where
  "check_network_operations code =
     map NetworkOperation (filter (\<lambda>pattern. re_search pattern code) network_patterns)"

text \<open>
  \<^verbatim>\<open>check_strategy\<close>. The violations are collected in the order of the source; the
  position sizing check runs when a data frame is passed.
\<close>

definition check_strategy ::
  "(string \<Rightarrow> string + ast) \<Rightarrow> guard_rail \<Rightarrow> string \<Rightarrow> 'd option \<Rightarrow> py_error + verdict" where
  "check_strategy ast_parse self strategy_code data =
     (case ast_parse strategy_code of
        Inl e \<Rightarrow> Inr \<lparr>passed = False, errors = [SyntaxErrorMessage e]\<rparr>
      | Inr tree \<Rightarrow>
          (let violations = check_banned_patterns self strategy_code;
               violations = violations @ check_ast self tree;
               violations = violations @ check_forward_looking strategy_code
           in and_then
                (if data \<noteq> None
                 then and_then (check_position_sizing self strategy_code)
                        (\<lambda>sizing. Inr (violations @ sizing))
                 else Inr violations)
                (\<lambda>violations.
                  (let violations = violations @ check_file_operations tree;
                       violations = violations @ check_network_operations strategy_code
                   in Inr \<lparr>passed = (length violations = 0), errors = violations\<rparr>))))"

text \<open>
  Three submissions with their trees. A comment leaves an empty module; an assignment
  of a number is a node over a name and a constant.
\<close>

definition comment_code :: string where
  "comment_code = ''# http leverage=1.5.''"

definition comment_tree :: ast where
  "comment_tree = Node []"

definition leverage_code :: string where
  "leverage_code = ''leverage = 5.0''"

definition leverage_tree :: ast where
  "leverage_tree = Node [Node [Name ''leverage'', Constant (OtherConst ''5.0'')]]"

definition unbalanced_code :: string where
  "unbalanced_code = ''signals = pd.Series(1.0, index=price.index''"

definition parse_examples :: "string \<Rightarrow> string + ast" where
  "parse_examples code =
     (if code = comment_code then Inr comment_tree
      else if code = leverage_code then Inr leverage_tree
      else Inl (''unexpected EOF while parsing (<unknown>, line 1)''))"
section \<open>Facts about the series primitives\<close>

lemma length_shift1 [simp]: "length (shift1 xs) = length xs"
  by (cases xs) (simp_all add: shift1_def)

lemma nth_shift1_0: "xs \<noteq> [] \<Longrightarrow> shift1 xs ! 0 = None"
  by (simp add: shift1_def)

lemma nth_shift1_Suc: "Suc t < length xs \<Longrightarrow> shift1 xs ! Suc t = Some (xs ! t)"
  by (cases "xs = []") (simp_all add: shift1_def nth_butlast)

lemma length_diff [simp]: "length (diff xs) = length xs"
  by (simp add: diff_def)

lemma nth_diff_0: "xs \<noteq> [] \<Longrightarrow> diff xs ! 0 = None"
  by (simp add: diff_def nth_shift1_0)

lemma nth_diff_Suc: "Suc t < length xs \<Longrightarrow> diff xs ! Suc t = Some (xs ! Suc t - xs ! t)"
  by (simp add: diff_def nth_shift1_Suc)

lemma length_costs [simp]:
  "length (calculate_transaction_costs self positions prices) = min (length positions) (length prices)"
  by (simp add: calculate_transaction_costs_def Let_def)

lemma costs_0:
  assumes "positions \<noteq> []" "prices \<noteq> []"
  shows "calculate_transaction_costs self positions prices ! 0 = 0"
  using assms
  by (simp add: calculate_transaction_costs_def Let_def nth_diff_0 fillna_def)

lemma costs_Suc:
  assumes "Suc t < length positions" "Suc t < length prices"
  shows "calculate_transaction_costs self positions prices ! Suc t =
         (bid_ask_spread self + slippage self) * \<bar>positions ! Suc t - positions ! t\<bar> * prices ! Suc t"
  using assms
  by (simp add: calculate_transaction_costs_def Let_def nth_diff_Suc fillna_def)

lemma price_returns_Suc:
  assumes "Suc t < length prices" "prices ! t \<noteq> 0"
  shows "price_returns_of prices ! Suc t = prices ! Suc t / prices ! t - 1"
  using assms
  by (simp add: price_returns_of_def pct_change_def nth_shift1_Suc fdiv_def fillna_def)

lemma net_returns_Suc:
  assumes len: "length positions = length prices"
    and t: "Suc t < length prices"
    and nz: "prices ! t \<noteq> 0"
  shows "net_returns_of self positions prices ! Suc t =
         Some (positions ! t * (prices ! Suc t / prices ! t - 1)
               - calculate_transaction_costs self positions prices ! Suc t / prices ! t)"
proof -
  have s: "strategy_returns_of positions prices ! Suc t =
           Some (positions ! t * (prices ! Suc t / prices ! t - 1))"
    using len t nz
    by (simp add: strategy_returns_of_def nth_shift1_Suc price_returns_Suc
        price_returns_of_def pct_change_def fdiv_def fillna_def)
  have c: "cost_returns_of self positions prices ! Suc t =
           Some (- calculate_transaction_costs self positions prices ! Suc t / prices ! t)"
    using len t nz by (simp add: cost_returns_of_def nth_shift1_Suc fdiv_def)
  have l1: "Suc t < length (strategy_returns_of positions prices)"
    using len t by (simp add: strategy_returns_of_def price_returns_of_def pct_change_def)
  have l2: "Suc t < length (cost_returns_of self positions prices)"
    using len t by (simp add: cost_returns_of_def)
  show ?thesis
    using l1 l2 by (simp add: net_returns_of_def s c fillna_def)
qed

lemma transaction_cost_facts:
  assumes len: "length positions = length prices"
    and pos: "\<forall>p \<in> set prices. 0 < p"
    and rate: "0 \<le> bid_ask_spread self + slippage self"
    and t: "t < length prices"
  shows "0 \<le> calculate_transaction_costs self positions prices ! t"
    and "t = 0 \<longrightarrow> calculate_transaction_costs self positions prices ! t = 0"
    and "0 < t \<longrightarrow>
           calculate_transaction_costs self positions prices ! t =
             (bid_ask_spread self + slippage self) * \<bar>positions ! t - positions ! (t - 1)\<bar>
               * prices ! t"
    and "0 < t \<longrightarrow> positions ! t = positions ! (t - 1) \<longrightarrow>
           calculate_transaction_costs self positions prices ! t = 0"
    and "0 < t \<longrightarrow>
           net_returns_of self positions prices ! t =
             Some (positions ! (t - 1) * (prices ! t / prices ! (t - 1) - 1)
                   - calculate_transaction_costs self positions prices ! t / prices ! (t - 1))"
proof -
  have ne: "positions \<noteq> []" "prices \<noteq> []"
    using len t by auto
  have pt: "0 < prices ! t"
    using pos t by simp
  show c0: "t = 0 \<longrightarrow> calculate_transaction_costs self positions prices ! t = 0"
    using costs_0 [OF ne] by simp
  show cS: "0 < t \<longrightarrow>
           calculate_transaction_costs self positions prices ! t =
             (bid_ask_spread self + slippage self) * \<bar>positions ! t - positions ! (t - 1)\<bar>
               * prices ! t"
  proof
    assume "0 < t"
    then obtain k where k: "t = Suc k" by (cases t) auto
    show "calculate_transaction_costs self positions prices ! t =
             (bid_ask_spread self + slippage self) * \<bar>positions ! t - positions ! (t - 1)\<bar>
               * prices ! t"
      using costs_Suc [of k positions prices self] len t k by simp
  qed
  show "0 \<le> calculate_transaction_costs self positions prices ! t"
  proof (cases "t = 0")
    case True
    then show ?thesis using c0 by simp
  next
    case False
    then have "calculate_transaction_costs self positions prices ! t =
             (bid_ask_spread self + slippage self) * \<bar>positions ! t - positions ! (t - 1)\<bar>
               * prices ! t"
      using cS by simp
    moreover have "0 \<le> (bid_ask_spread self + slippage self) * \<bar>positions ! t - positions ! (t - 1)\<bar>
               * prices ! t"
      using rate pt by simp
    ultimately show ?thesis by simp
  qed
  show "0 < t \<longrightarrow> positions ! t = positions ! (t - 1) \<longrightarrow>
           calculate_transaction_costs self positions prices ! t = 0"
    using cS by simp
  show "0 < t \<longrightarrow>
           net_returns_of self positions prices ! t =
             Some (positions ! (t - 1) * (prices ! t / prices ! (t - 1) - 1)
                   - calculate_transaction_costs self positions prices ! t / prices ! (t - 1))"
  proof
    assume "0 < t"
    then obtain k where k: "t = Suc k" by (cases t) auto
    have "0 < prices ! k"
      using pos t k by simp
    then have "prices ! k \<noteq> 0" by simp
    then show "net_returns_of self positions prices ! t =
             Some (positions ! (t - 1) * (prices ! t / prices ! (t - 1) - 1)
                   - calculate_transaction_costs self positions prices ! t / prices ! (t - 1))"
      using net_returns_Suc [OF len, of k self] t k by simp
  qed
qed

section \<open>Claims about the cost model\<close>

text \<open>
  C5. On a position series and a strictly positive price series of the same index, with
  a non-negative total of the spread and slippage rates, the transaction cost at every
  step after the first is
  \<open>(bid_ask_spread + slippage) * |position(t) - position(t-1)| * price(t)\<close>, the net
  return there is the lagged strategy return minus that cost divided by the prior price,
  the cost is non-negative at every step, zero at the first step, and zero wherever the
  position equals the previous one.
\<close>

theorem transaction_cost_model:
  assumes "length positions = length prices"
    and "\<forall>p \<in> set prices. 0 < p"
    and "0 \<le> bid_ask_spread self + slippage self"
    and "t < length prices"
  shows "0 \<le> calculate_transaction_costs self positions prices ! t
       \<and> (t = 0 \<longrightarrow> calculate_transaction_costs self positions prices ! t = 0)
       \<and> (0 < t \<longrightarrow>
            calculate_transaction_costs self positions prices ! t =
              (bid_ask_spread self + slippage self) * \<bar>positions ! t - positions ! (t - 1)\<bar>
                * prices ! t
          \<and> (positions ! t = positions ! (t - 1) \<longrightarrow>
                calculate_transaction_costs self positions prices ! t = 0)
          \<and> net_returns_of self positions prices ! t =
              Some (positions ! (t - 1) * (prices ! t / prices ! (t - 1) - 1)
                    - calculate_transaction_costs self positions prices ! t / prices ! (t - 1)))"
  using transaction_cost_facts [OF assms] by blast

theorem transaction_cost_model_witness:
  "calculate_transaction_costs default_backtester [0, 1, 1] [100, 110, 121] ! 1 = 11 / 50
   \<and> calculate_transaction_costs default_backtester [0, 1, 1] [100, 110, 121] ! 2 = 0
   \<and> net_returns_of default_backtester [0, 1, 1] [100, 110, 121] ! 1 = Some (- (11 / 5000))
   \<and> net_returns_of default_backtester [0, 1, 1] [100, 110, 121] ! 2 = Some (1 / 10)"
  using transaction_cost_model [of "[0, 1, 1]" "[100, 110, 121]" default_backtester 1]
    transaction_cost_model [of "[0, 1, 1]" "[100, 110, 121]" default_backtester 2]
  by (simp add: default_backtester_def)

section \<open>Facts about the aggregate report\<close>

lemma aggregate_period_same:
  "aggregate_period r p m (p @ s) =
     (case period_report (period_results_of r p) s of None \<Rightarrow> m (p @ s) | Some v \<Rightarrow> Some v)"
  by (simp add: aggregate_period_def period_report_def Let_def)

lemma aggregate_period_other:
  "\<forall>s \<in> set metric_suffixes. k \<noteq> p @ s \<Longrightarrow> aggregate_period r p m k = m k"
  by (simp add: aggregate_period_def metric_suffixes_def Let_def)

lemma agg_unfold:
  "calculate_aggregate_metrics r =
     aggregate_period r ''test'' (aggregate_period r ''validation''
       (aggregate_period r ''train'' Map.empty))"
  by (simp add: calculate_aggregate_metrics_def)

lemma agg_test:
  "calculate_aggregate_metrics r (''test'' @ s) =
     period_report (test_results r) s"
proof -
  have a: "\<forall>s' \<in> set metric_suffixes. ''test'' @ s \<noteq> ''validation'' @ s'"
    by (simp add: metric_suffixes_def)
  have b: "\<forall>s' \<in> set metric_suffixes. ''test'' @ s \<noteq> ''train'' @ s'"
    by (simp add: metric_suffixes_def)
  have "calculate_aggregate_metrics r (''test'' @ s) =
     (case period_report (period_results_of r ''test'') s of
        None \<Rightarrow> None | Some v \<Rightarrow> Some v)"
    unfolding agg_unfold aggregate_period_same
      aggregate_period_other [OF a] aggregate_period_other [OF b] by simp
  then show ?thesis
    by (simp add: period_results_of_def split: option.splits)
qed

lemma agg_val:
  "calculate_aggregate_metrics r (''validation'' @ s) =
     period_report (validation_results r) s"
proof -
  have a: "\<forall>s' \<in> set metric_suffixes. ''validation'' @ s \<noteq> ''test'' @ s'"
    by (simp add: metric_suffixes_def)
  have b: "\<forall>s' \<in> set metric_suffixes. ''validation'' @ s \<noteq> ''train'' @ s'"
    by (simp add: metric_suffixes_def)
  have "calculate_aggregate_metrics r (''validation'' @ s) =
     (case period_report (period_results_of r ''validation'') s of
        None \<Rightarrow> None | Some v \<Rightarrow> Some v)"
    unfolding agg_unfold aggregate_period_other [OF a] aggregate_period_same
      aggregate_period_other [OF b] by simp
  then show ?thesis
    by (simp add: period_results_of_def split: option.splits)
qed

lemma agg_train:
  "calculate_aggregate_metrics r (''train'' @ s) =
     period_report (train_results r) s"
proof -
  have a: "\<forall>s' \<in> set metric_suffixes. ''train'' @ s \<noteq> ''test'' @ s'"
    by (simp add: metric_suffixes_def)
  have b: "\<forall>s' \<in> set metric_suffixes. ''train'' @ s \<noteq> ''validation'' @ s'"
    by (simp add: metric_suffixes_def)
  have "calculate_aggregate_metrics r (''train'' @ s) =
     (case period_report (period_results_of r ''train'') s of
        None \<Rightarrow> None | Some v \<Rightarrow> Some v)"
    unfolding agg_unfold aggregate_period_other [OF a] aggregate_period_other [OF b]
      aggregate_period_same by simp
  then show ?thesis
    by (simp add: period_results_of_def split: option.splits)
qed

lemma agg_dom:
  "calculate_aggregate_metrics r k \<noteq> None \<Longrightarrow> \<exists>p \<in> {''train'', ''validation'', ''test''}. \<exists>s \<in> set metric_suffixes. k = p @ s"
proof (rule ccontr)
  assume k: "calculate_aggregate_metrics r k \<noteq> None"
    and n: "\<not> (\<exists>p \<in> {''train'', ''validation'', ''test''}. \<exists>s \<in> set metric_suffixes. k = p @ s)"
  from n have "\<forall>s \<in> set metric_suffixes. k \<noteq> ''train'' @ s"
    "\<forall>s \<in> set metric_suffixes. k \<noteq> ''validation'' @ s"
    "\<forall>s \<in> set metric_suffixes. k \<noteq> ''test'' @ s"
    by blast+
  then have "calculate_aggregate_metrics r k = None"
    by (simp only: agg_unfold aggregate_period_other)
  with k show False by simp
qed


lemma agg_cases:
  assumes "(p, rs) \<in> {(''train'', train_results r), (''validation'', validation_results r),
                       (''test'', test_results r)}"
  shows "calculate_aggregate_metrics r (p @ s) = period_report rs s"
  using assms agg_train [of r s] agg_val [of r s] agg_test [of r s] by auto

section \<open>Claims about the aggregate report\<close>

text \<open>
  C9, as the code has it. For each of the periods train, validation and test with its
  list of period results: when the list is empty the report has none of the period's
  keys; otherwise it has the mean of the Sharpe ratio, total return, maximum drawdown,
  turnover and beta, the population standard deviation and the minimum of the Sharpe
  ratios, and the number of Sharpe ratios below 0.3. The report has no other key: no
  mean of the volatility, the trade count, the win rate or the profit factor.
\<close>

theorem aggregate_metrics_report:
  assumes "(p, rs) \<in> {(''train'', train_results r), (''validation'', validation_results r),
                       (''test'', test_results r)}"
  shows "(rs = [] \<longrightarrow> (\<forall>s \<in> set metric_suffixes. calculate_aggregate_metrics r (p @ s) = None))
       \<and> (rs \<noteq> [] \<longrightarrow>
            calculate_aggregate_metrics r (p @ ''_avg_sharpe'') = Some (np_mean (map sharpe_ratio rs))
          \<and> calculate_aggregate_metrics r (p @ ''_avg_return'') = Some (np_mean (map total_return rs))
          \<and> calculate_aggregate_metrics r (p @ ''_avg_maxdd'') = Some (np_mean (map max_drawdown rs))
          \<and> calculate_aggregate_metrics r (p @ ''_avg_turnover'') = Some (np_mean (map turnover rs))
          \<and> calculate_aggregate_metrics r (p @ ''_avg_beta'') = Some (np_mean (map beta rs))
          \<and> calculate_aggregate_metrics r (p @ ''_sharpe_std'') = Some (np_std (map sharpe_ratio rs))
          \<and> calculate_aggregate_metrics r (p @ ''_min_sharpe'') = Some (np_min (map sharpe_ratio rs))
          \<and> calculate_aggregate_metrics r (p @ ''_unstable_windows'') =
                Some (Some (real (length (filter (below (3 / 10)) (map sharpe_ratio rs))))))
       \<and> dom (calculate_aggregate_metrics r) \<subseteq>
             {q @ s | q s. q \<in> {''train'', ''validation'', ''test''} \<and> s \<in> set metric_suffixes}"
proof -
  have e: "rs = [] \<longrightarrow> (\<forall>s \<in> set metric_suffixes. calculate_aggregate_metrics r (p @ s) = None)"
    by (simp add: agg_cases [OF assms] period_report_def)
  have n: "rs \<noteq> [] \<longrightarrow>
            calculate_aggregate_metrics r (p @ ''_avg_sharpe'') = Some (np_mean (map sharpe_ratio rs))
          \<and> calculate_aggregate_metrics r (p @ ''_avg_return'') = Some (np_mean (map total_return rs))
          \<and> calculate_aggregate_metrics r (p @ ''_avg_maxdd'') = Some (np_mean (map max_drawdown rs))
          \<and> calculate_aggregate_metrics r (p @ ''_avg_turnover'') = Some (np_mean (map turnover rs))
          \<and> calculate_aggregate_metrics r (p @ ''_avg_beta'') = Some (np_mean (map beta rs))
          \<and> calculate_aggregate_metrics r (p @ ''_sharpe_std'') = Some (np_std (map sharpe_ratio rs))
          \<and> calculate_aggregate_metrics r (p @ ''_min_sharpe'') = Some (np_min (map sharpe_ratio rs))
          \<and> calculate_aggregate_metrics r (p @ ''_unstable_windows'') =
                Some (Some (real (length (filter (below (3 / 10)) (map sharpe_ratio rs)))))"
    by (simp add: agg_cases [OF assms] period_report_def)
  have d: "dom (calculate_aggregate_metrics r) \<subseteq>
             {q @ s | q s. q \<in> {''train'', ''validation'', ''test''} \<and> s \<in> set metric_suffixes}"
  proof
    fix k assume "k \<in> dom (calculate_aggregate_metrics r)"
    then have "calculate_aggregate_metrics r k \<noteq> None" by auto
    from agg_dom [OF this] show "k \<in> {q @ s | q s. q \<in> {''train'', ''validation'', ''test''} \<and> s \<in> set metric_suffixes}"
      by blast
  qed
  from e n d show ?thesis by blast
qed

theorem aggregate_metrics_report_witness:
  "calculate_aggregate_metrics two_windows ''train_avg_sharpe'' = Some (Some 1)
   \<and> calculate_aggregate_metrics two_windows ''train_avg_return'' = Some (Some (1 / 5))
   \<and> calculate_aggregate_metrics two_windows ''train_avg_beta'' = Some None
   \<and> calculate_aggregate_metrics two_windows ''train_sharpe_std'' = Some (Some 1)
   \<and> calculate_aggregate_metrics two_windows ''train_min_sharpe'' = Some (Some 0)
   \<and> calculate_aggregate_metrics two_windows ''train_unstable_windows'' = Some (Some 1)
   \<and> calculate_aggregate_metrics two_windows ''test_avg_sharpe'' = None
   \<and> calculate_aggregate_metrics two_windows ''train_avg_volatility'' = None"
proof -
  have v1: "np_mean (map sharpe_ratio (train_results two_windows)) = Some 1"
    by (simp add: two_windows_def np_mean_def)
  have v2: "np_mean (map total_return (train_results two_windows)) = Some (1 / 5)"
    by (simp add: two_windows_def np_mean_def)
  have v3: "np_mean (map beta (train_results two_windows)) = None"
    by (simp add: two_windows_def np_mean_def)
  have v4: "np_std (map sharpe_ratio (train_results two_windows)) = Some 1"
    by (simp add: two_windows_def np_mean_def np_std_def)
  have v5: "np_min (map sharpe_ratio (train_results two_windows)) = Some 0"
    by (simp add: two_windows_def np_min_def)
  have v6: "length (filter (below (3 / 10)) (map sharpe_ratio (train_results two_windows))) = 1"
    by (simp add: two_windows_def below_def)
  have v: "''train_avg_volatility'' \<notin>
      {q @ s | q s. q \<in> {''train'', ''validation'', ''test''} \<and> s \<in> set metric_suffixes}"
    by (auto simp add: metric_suffixes_def)
  have m: "(''train'', train_results two_windows) \<in>
      {(''train'', train_results two_windows), (''validation'', validation_results two_windows),
       (''test'', test_results two_windows)}"
    "(''test'', test_results two_windows) \<in>
      {(''train'', train_results two_windows), (''validation'', validation_results two_windows),
       (''test'', test_results two_windows)}"
    by simp_all
  have t: "train_results two_windows \<noteq> []" "test_results two_windows = []"
    by (simp_all add: two_windows_def)
  have s: "''_avg_sharpe'' \<in> set metric_suffixes"
    by (simp add: metric_suffixes_def)
  have tr: "calculate_aggregate_metrics two_windows ''train_avg_sharpe'' = Some (Some 1)
   \<and> calculate_aggregate_metrics two_windows ''train_avg_return'' = Some (Some (1 / 5))
   \<and> calculate_aggregate_metrics two_windows ''train_avg_beta'' = Some None
   \<and> calculate_aggregate_metrics two_windows ''train_sharpe_std'' = Some (Some 1)
   \<and> calculate_aggregate_metrics two_windows ''train_min_sharpe'' = Some (Some 0)
   \<and> calculate_aggregate_metrics two_windows ''train_unstable_windows'' = Some (Some 1)"
    using aggregate_metrics_report [OF m(1)] t(1)
    by (simp add: v1 v2 v3 v4 v5) (simp add: two_windows_def below_def)
  have te: "calculate_aggregate_metrics two_windows ''test_avg_sharpe'' = None"
    using aggregate_metrics_report [OF m(2)] t(2) s by auto
  have "''train_avg_volatility'' \<notin> dom (calculate_aggregate_metrics two_windows)"
    using aggregate_metrics_report [OF m(1)] v by blast
  then have vo: "calculate_aggregate_metrics two_windows ''train_avg_volatility'' = None"
    by auto
  from tr te vo show ?thesis by simp
qed

text \<open>
  C9 as the specification words it fails: the report carries no mean of the volatility,
  the trade count, the win rate or the profit factor. Two results dictionaries whose
  train results differ in exactly these four metrics have the same report.
\<close>

theorem aggregate_metrics_counterexample:
  "calculate_aggregate_metrics two_windows = calculate_aggregate_metrics two_windows_other
   \<and> np_mean (map volatility (train_results two_windows)) = Some (3 / 10)
   \<and> np_mean (map volatility (train_results two_windows_other)) = Some 1
   \<and> np_mean (map win_rate (train_results two_windows)) = Some (1 / 2)
   \<and> np_mean (map win_rate (train_results two_windows_other)) = Some 0
   \<and> np_mean (map profit_factor (train_results two_windows)) = Some 2
   \<and> np_mean (map profit_factor (train_results two_windows_other)) = Some 0
   \<and> map num_trades (train_results two_windows) = [4, 6]
   \<and> map num_trades (train_results two_windows_other) = [0, 0]"
proof -
  have "calculate_aggregate_metrics two_windows = calculate_aggregate_metrics two_windows_other"
    by (simp add: calculate_aggregate_metrics_def aggregate_period_def period_results_of_def
        two_windows_def two_windows_other_def Let_def)
  moreover have "np_mean (map volatility (train_results two_windows)) = Some (3 / 10)"
    "np_mean (map volatility (train_results two_windows_other)) = Some 1"
    "np_mean (map win_rate (train_results two_windows)) = Some (1 / 2)"
    "np_mean (map win_rate (train_results two_windows_other)) = Some 0"
    "np_mean (map profit_factor (train_results two_windows)) = Some 2"
    "np_mean (map profit_factor (train_results two_windows_other)) = Some 0"
    "map num_trades (train_results two_windows) = [4, 6]"
    "map num_trades (train_results two_windows_other) = [0, 0]"
    by (simp_all add: two_windows_def two_windows_other_def np_mean_def)
  ultimately show ?thesis by simp
qed

section \<open>Facts about the window generator\<close>





lemma windows_loop_more_fuel:
  assumes "windows_loop fuel add_months self index data_end current_start acc = Some r"
  shows "windows_loop (fuel + k) add_months self index data_end current_start acc = Some r"
  using assms
proof (induction fuel arbitrary: current_start acc)
  case 0
  then show ?case by simp
next
  case (Suc fuel)
  then show ?case
    by (auto simp add: Let_def split: sum.splits if_splits)
qed


text \<open>
  On calendar dates the loop returns when the roll is of at least one month: every round
  moves the start by the roll, so the test end passes the last date of the data after
  as many rounds as there are months left.
\<close>

lemma month_index_offset:
  "month_index (date_offset_months n t) = month_index t + n"
  by (cases t) (simp add: month_index_def date_offset_months_def Let_def)

lemma valid_month_offset: "valid_month (date_offset_months n t)"
  by (cases t) (simp add: valid_month_def date_offset_months_def Let_def)

lemma month_index_less:
  assumes "valid_month s" and "valid_month t" and "month_index s < month_index t"
  shows "s < t"
proof -
  obtain y m d where s: "s = (y, m, d)" by (cases s)
  obtain y' m' d' where t: "t = (y', m', d')" by (cases t)
  from assms have "y < y' \<or> y = y' \<and> m < m'"
    by (auto simp add: s t valid_month_def month_index_def)
  then show ?thesis
    by (auto simp add: s t less_prod_def)
qed

lemma windows_loop_returns:
  assumes roll: "1 \<le> roll_months self" and v: "valid_month data_end"
    and fuel: "month_index data_end
               - (month_index current_start + train_months self + validation_months self
                  + test_months self) < int fuel"
  shows "windows_loop (Suc fuel) date_offset_months self index data_end current_start acc \<noteq> None"
  using fuel
proof (induction fuel arbitrary: current_start acc)
  case 0
  let ?te = "date_offset_months (test_months self)
          (date_offset_months (validation_months self)
            (date_offset_months (train_months self) current_start))"
  from 0 have "month_index data_end < month_index ?te"
    by (simp add: month_index_offset)
  then have "data_end < ?te"
    using month_index_less [OF v valid_month_offset] by blast
  then show ?case by (simp add: Let_def)
next
  case (Suc fuel)
  let ?te = "date_offset_months (test_months self)
          (date_offset_months (validation_months self)
            (date_offset_months (train_months self) current_start))"
  show ?case
  proof (cases "data_end < ?te")
    case True
    then show ?thesis by (simp add: Let_def)
  next
    case False
    have "month_index data_end
               - (month_index (date_offset_months (roll_months self) current_start)
                  + train_months self + validation_months self + test_months self) < int fuel"
      using Suc.prems roll by (simp add: month_index_offset)
    from Suc.IH [OF this] show ?thesis
      using False by (simp add: Let_def split: sum.splits)
  qed
qed

lemma generate_walk_forward_windows_returns:
  assumes "1 \<le> roll_months self" and "index \<noteq> []" and "valid_month (last index)"
    and "month_index (last index)
           - (month_index (hd index) + train_months self + validation_months self
              + test_months self) < int fuel"
  shows "generate_walk_forward_windows (Suc fuel) date_offset_months self index \<noteq> None"
proof -
  from assms(2) have "first_of index = Inr (hd index)" "last_of index = Inr (last index)"
    by (cases index; simp add: first_of_def last_of_def)+
  then show ?thesis
    using windows_loop_returns [OF assms(1,3,4), of index "[]"]
    by (simp add: generate_walk_forward_windows_def)
qed

section \<open>Claims about the window generator\<close>




section \<open>Facts about the execution of a strategy\<close>



lemma execute_strategy_error:
  "execute_strategy exec_py strategy_code price_data = Inl e \<longleftrightarrow>
     (\<exists>e'. run_strategy exec_py strategy_code price_data = Inl e'
         \<and> e = RuntimeError (''Strategy execution failed: '' @ str_of e'))"
  by (auto simp add: execute_strategy_def split: sum.splits)

section \<open>Claims about the execution of a strategy\<close>



text \<open>
  C8, at the strategy of the test \<^verbatim>\<open>test_invalid_strategy_handling\<close>: the check for
  the missing \<^verbatim>\<open>signals\<close> raises its \<^verbatim>\<open>ValueError\<close> inside the \<^verbatim>\<open>try\<close> block, so
  the handler wraps it, and the caller sees the \<^verbatim>\<open>RuntimeError\<close> of every other
  failed execution, not the error of its own that the test expects.
\<close>

theorem missing_signals_is_wrapped:
  "execute_strategy exec_examples no_signals_code five_days =
     Inl (RuntimeError ''Strategy execution failed: Strategy must define 'signals' variable'')
   \<and> execute_strategy exec_examples no_signals_code five_days \<noteq>
     Inl (ValueError ''Strategy must define 'signals' variable'')"
proof -
  have "execute_strategy exec_examples no_signals_code five_days =
     Inl (RuntimeError ''Strategy execution failed: Strategy must define 'signals' variable'')"
    by code_simp
  then show ?thesis by simp
qed

section \<open>Facts about the walk-forward run\<close>






text \<open>
  The two strategies on the fortnightly closes, with spans of one month: one window is
  planned, with three bars in its train period and two in each of the others.
\<close>

lemma fortnightly_windows:
  "generate_walk_forward_windows 2 date_offset_months monthly_bt (map fst fortnightly_data) =
     Some (Inr [\<lparr>train_start = (2020, 1, 1), train_end = (2020, 2, 1),
                 val_start = (2020, 2, 15), val_end = (2020, 3, 1),
                 test_start = (2020, 3, 15), test_end = (2020, 4, 1)\<rparr>])"
  by code_simp






lemma buy_and_hold_lists:
  "map_option (map_sum id result_lists)
     (run_walk_forward_backtest 2 date_offset_months exec_examples flat_metrics monthly_bt
        buy_and_hold_code fortnightly_data) =
   Some (Inr ([tagged 0 flat_result],
               [tagged 0 flat_result],
               [tagged 0 flat_result]))"
proof -
  have "run_backtest_period exec_examples flat_metrics monthly_bt buy_and_hold_code
          fortnightly_data (2020, 1, 1) (2020, 2, 1) = Inr flat_result"
    "run_backtest_period exec_examples flat_metrics monthly_bt buy_and_hold_code
          fortnightly_data (2020, 2, 15) (2020, 3, 1) = Inr flat_result"
    "run_backtest_period exec_examples flat_metrics monthly_bt buy_and_hold_code
          fortnightly_data (2020, 3, 15) (2020, 4, 1) = Inr flat_result"
    by code_simp+
  then show ?thesis
    by (simp add: run_walk_forward_backtest_def fortnightly_windows run_window_def
        Let_def result_lists_def tagged_def)
qed

section \<open>Claims about the walk-forward run\<close>







section \<open>Facts about the guard rail\<close>

lemma ci_prefix_Some:
  "ci_prefix w s = Some rest \<longleftrightarrow>
     (\<exists>m. s = m @ rest \<and> map to_lower m = map to_lower w)"
proof (induction w s rule: ci_prefix.induct)
  case (1 s)
  then show ?case by auto
next
  case (2 p ps)
  then show ?case by auto
next
  case (3 p ps c cs)
  show ?case
  proof
    assume "ci_prefix (p # ps) (c # cs) = Some rest"
    then have e: "to_lower p = to_lower c" and r: "ci_prefix ps cs = Some rest"
      by (auto split: if_splits)
    with 3 obtain m where "cs = m @ rest" "map to_lower m = map to_lower ps" by blast
    with e have "c # cs = (c # m) @ rest \<and> map to_lower (c # m) = map to_lower (p # ps)"
      by simp
    then show "\<exists>m. c # cs = m @ rest \<and> map to_lower m = map to_lower (p # ps)" by blast
  next
    assume "\<exists>m. c # cs = m @ rest \<and> map to_lower m = map to_lower (p # ps)"
    then obtain m where m: "c # cs = m @ rest" "map to_lower m = map to_lower (p # ps)"
      by blast
    then obtain m' where m': "m = c # m'" by (cases m) auto
    with m have "to_lower p = to_lower c" "cs = m' @ rest" "map to_lower m' = map to_lower ps"
      by auto
    with 3 show "ci_prefix (p # ps) (c # cs) = Some rest" by auto
  qed
qed

lemma re_search_iff:
  "re_search r s \<longleftrightarrow> (\<exists>pre post. s = pre @ post \<and> matches r post \<noteq> [])"
proof (induction s)
  case Nil
  then show ?case by simp
next
  case (Cons c s)
  show ?case
  proof
    assume "re_search r (c # s)"
    then consider "matches r (c # s) \<noteq> []" | "re_search r s" by auto
    then show "\<exists>pre post. c # s = pre @ post \<and> matches r post \<noteq> []"
    proof cases
      case 1
      then have "c # s = [] @ (c # s) \<and> matches r (c # s) \<noteq> []" by simp
      then show ?thesis by blast
    next
      case 2
      with Cons obtain pre post where "s = pre @ post" "matches r post \<noteq> []" by blast
      then have "c # s = (c # pre) @ post \<and> matches r post \<noteq> []" by simp
      then show ?thesis by blast
    qed
  next
    assume "\<exists>pre post. c # s = pre @ post \<and> matches r post \<noteq> []"
    then obtain pre post where p: "c # s = pre @ post" "matches r post \<noteq> []" by blast
    show "re_search r (c # s)"
    proof (cases pre)
      case Nil
      with p have "matches r (c # s) \<noteq> []" by simp
      then show ?thesis by simp
    next
      case (Cons a pre')
      with p have "s = pre' @ post" by simp
      with p(2) Cons.IH show ?thesis by auto
    qed
  qed
qed

lemma re_search_Lit:
  "re_search (Lit w) s \<longleftrightarrow>
     (\<exists>pre m post. s = pre @ m @ post \<and> map to_lower m = map to_lower w)"
proof -
  have "matches (Lit w) t \<noteq> [] \<longleftrightarrow> (\<exists>m post. t = m @ post \<and> map to_lower m = map to_lower w)"
    for t
    using ci_prefix_Some [of w t] by (auto split: option.splits)
  then show ?thesis
    unfolding re_search_iff by blast
qed


lemma check_strategy_no_data:
  "ast_parse code = Inr tree \<Longrightarrow>
   check_strategy ast_parse self code None =
     Inr \<lparr>passed = (check_banned_patterns self code @ check_ast self tree
                     @ check_forward_looking code @ check_file_operations tree
                     @ check_network_operations code = []),
          errors = check_banned_patterns self code @ check_ast self tree
                     @ check_forward_looking code @ check_file_operations tree
                     @ check_network_operations code\<rparr>"
  by (simp add: check_strategy_def and_then_def Let_def)

lemma check_strategy_data:
  "ast_parse code = Inr tree \<Longrightarrow> check_position_sizing self code = Inr sizing \<Longrightarrow>
   check_strategy ast_parse self code (Some d) =
     Inr \<lparr>passed = (check_banned_patterns self code @ check_ast self tree
                     @ check_forward_looking code @ sizing @ check_file_operations tree
                     @ check_network_operations code = []),
          errors = check_banned_patterns self code @ check_ast self tree
                     @ check_forward_looking code @ sizing @ check_file_operations tree
                     @ check_network_operations code\<rparr>"
  by (simp add: check_strategy_def and_then_def Let_def)

lemma check_strategy_data_raises:
  "ast_parse code = Inr tree \<Longrightarrow> check_position_sizing self code = Inl e \<Longrightarrow>
   check_strategy ast_parse self code (Some d) = Inl e"
  by (simp add: check_strategy_def and_then_def Let_def)

lemma check_strategy_passed:
  assumes "ast_parse code = Inr tree" and "check_strategy ast_parse self code data = Inr v"
  shows "passed v \<longleftrightarrow> errors v = []"
proof (cases data)
  case None
  with assms show ?thesis
    by (auto simp add: check_strategy_def and_then_def Let_def)
next
  case (Some d)
  with assms show ?thesis
    by (cases "check_position_sizing self code")
      (auto simp add: check_strategy_def and_then_def Let_def)
qed

lemma check_strategy_errors:
  assumes "ast_parse code = Inr tree" and "check_strategy ast_parse self code data = Inr r"
  shows "set (check_banned_patterns self code) \<union> set (check_network_operations code)
           \<subseteq> set (errors r)"
proof (cases data)
  case None
  with assms show ?thesis
    by (auto simp add: check_strategy_def and_then_def Let_def)
next
  case (Some d)
  with assms show ?thesis
    by (cases "check_position_sizing self code")
      (auto simp add: check_strategy_def and_then_def Let_def)
qed

lemma check_banned_patterns_mem:
  "r \<in> set (banned_patterns self) \<Longrightarrow> re_search r code \<Longrightarrow>
   BannedPattern r \<in> set (check_banned_patterns self code)"
  by (simp add: check_banned_patterns_def)

lemma check_network_operations_mem:
  "r \<in> set network_patterns \<Longrightarrow> re_search r code \<Longrightarrow>
   NetworkOperation r \<in> set (check_network_operations code)"
  by (simp add: check_network_operations_def)

lemma banned_text_rejected:
  assumes p: "ast_parse code = Inr tree"
    and c: "code = pre @ m @ post"
    and w: "map to_lower m = w"
    and v: "w = ''http'' \<and> v = BannedPattern (Lit w)
            \<or> w \<in> {''.get('', ''.post('', ''.put('', ''.delete(''} \<and> v = NetworkOperation (Lit w)"
  shows "(\<exists>r. check_strategy ast_parse static_guard_rail code None = Inr r)
       \<and> (\<forall>r. check_strategy ast_parse static_guard_rail code data = Inr r \<longrightarrow>
               \<not> passed r \<and> v \<in> set (errors r))"
proof -
  have lw: "map to_lower w = w"
    using v by (auto simp add: to_lower_def)
  have s: "re_search (Lit w) code"
    unfolding re_search_Lit using c w lw by metis
  have m: "v \<in> set (check_banned_patterns static_guard_rail code)
           \<union> set (check_network_operations code)"
  proof (cases "w = ''http''")
    case True
    with v have "v = BannedPattern (Lit w)" by auto
    moreover have "Lit w \<in> set (banned_patterns static_guard_rail)"
      using True by (simp add: static_guard_rail_def)
    ultimately show ?thesis
      using s check_banned_patterns_mem by blast
  next
    case False
    with v have n: "w \<in> {''.get('', ''.post('', ''.put('', ''.delete(''}"
      and "v = NetworkOperation (Lit w)" by auto
    moreover from n have "Lit w \<in> set network_patterns"
      by (auto simp add: network_patterns_def)
    ultimately show ?thesis
      using s check_network_operations_mem by blast
  qed
  have "\<not> passed r \<and> v \<in> set (errors r)"
    if r: "check_strategy ast_parse static_guard_rail code data = Inr r" for r
  proof -
    from check_strategy_errors [OF p r] m have "v \<in> set (errors r)" by blast
    moreover from this have "errors r \<noteq> []" by auto
    ultimately show ?thesis using check_strategy_passed [OF p r] by simp
  qed
  moreover have "\<exists>r. check_strategy ast_parse static_guard_rail code None = Inr r"
    using check_strategy_no_data [of ast_parse code tree static_guard_rail] p by blast
  ultimately show ?thesis by blast
qed

text \<open>The three submissions, with and without a data frame.\<close>

lemma parse_examples_values:
  "parse_examples unbalanced_code = Inl ''unexpected EOF while parsing (<unknown>, line 1)''"
  "parse_examples leverage_code = Inr leverage_tree"
  "parse_examples comment_code = Inr comment_tree"
  by (simp_all add: parse_examples_def unbalanced_code_def leverage_code_def comment_code_def)




lemma comment_with_data:
  "check_strategy parse_examples static_guard_rail comment_code (Some ()) =
     Inl (ValueError (''could not convert string to float: '' @ [CHR 0x27] @ ''1.5.''
                        @ [CHR 0x27]))"
  by code_simp


section \<open>Claims about the guard rail\<close>






text \<open>
  C10, at a comment that spells \<^verbatim>\<open>http\<close> and ends a sentence after a leverage, checked
  with a data frame as the pipeline does: the position sizing check takes \<^verbatim>\<open>1.5.\<close> for
  a number, \<^verbatim>\<open>float\<close> raises \<^verbatim>\<open>ValueError\<close>, and the guard rail returns no verdict.
  The lemma \<open>banned_text_rejected\<close> above has the rest of the claim: the guard rail
  never passes such a submission, and returns the failed verdict whenever the position
  sizing check does not raise.
\<close>

theorem http_comment_raises:
  "re_search (Lit ''http'') comment_code
   \<and> parse_examples comment_code = Inr comment_tree
   \<and> check_strategy parse_examples static_guard_rail comment_code (Some ()) =
       Inl (ValueError (''could not convert string to float: '' @ [CHR 0x27] @ ''1.5.''
                          @ [CHR 0x27]))"
proof -
  have "re_search (Lit ''http'') comment_code"
    by (simp add: comment_code_def to_lower_def)
  with parse_examples_values comment_with_data show ?thesis by simp
qed

end
